theory Spec2Isabelle
  imports Complex_Main
begin

section \<open>Numbers and exceptions\<close>

text \<open>
  The notebook computes with two kinds of numbers: Python's own numbers (\<^verbatim>\<open>float\<close>, and
  \<^verbatim>\<open>int\<close> where a literal such as \<^verbatim>\<open>0\<close> is passed) and numpy scalars
  (\<^verbatim>\<open>numpy.float64\<close>, which is what an entry read from an array is).  Both hold an
  IEEE double.  A double is modelled as an exact real or one of the three special values:
  rounding, overflow, underflow and the sign of a zero are outside this development, so
  a finite result is the real result and a product is zero only when a factor is.
\<close>

datatype error =
  ZeroDivisionError | ValueError | OverflowError | IndexError | NameError | TypeError
  | AttributeError

datatype fl = Fin real | PInf | NInf | NaN

datatype kind = PyNum | NpNum

type_synonym num = "kind \<times> fl"

abbreviation py :: "real \<Rightarrow> num" where
  "py r \<equiv> (PyNum, Fin r)"

abbreviation np :: "real \<Rightarrow> num" where
  "np r \<equiv> (NpNum, Fin r)"

text \<open>
  An operation with a numpy scalar among its operands is carried out by numpy and gives
  a numpy scalar (\<^verbatim>\<open>numpy.float64\<close> is a subclass of \<^verbatim>\<open>float\<close>, so its reflected
  method is tried first also when it is the right operand).
\<close>

fun join :: "kind \<Rightarrow> kind \<Rightarrow> kind" where
  "join PyNum PyNum = PyNum"
| "join _ _ = NpNum"

text \<open>The arithmetic of the special values.\<close>

definition signed_inf :: "real \<Rightarrow> fl" where
  "signed_inf s = (if 0 < s then PInf else if s < 0 then NInf else NaN)"

fun fl_sign :: "fl \<Rightarrow> real" where
  "fl_sign (Fin a) = sgn a"
| "fl_sign PInf = 1"
| "fl_sign NInf = - 1"
| "fl_sign NaN = 0"

fun fl_neg :: "fl \<Rightarrow> fl" where
  "fl_neg (Fin a) = Fin (- a)"
| "fl_neg PInf = NInf"
| "fl_neg NInf = PInf"
| "fl_neg NaN = NaN"

fun fl_add :: "fl \<Rightarrow> fl \<Rightarrow> fl" where
  "fl_add (Fin a) (Fin b) = Fin (a + b)"
| "fl_add NaN _ = NaN"
| "fl_add _ NaN = NaN"
| "fl_add PInf NInf = NaN"
| "fl_add NInf PInf = NaN"
| "fl_add PInf _ = PInf"
| "fl_add _ PInf = PInf"
| "fl_add NInf _ = NInf"
| "fl_add _ NInf = NInf"

fun fl_mul :: "fl \<Rightarrow> fl \<Rightarrow> fl" where
  "fl_mul (Fin a) (Fin b) = Fin (a * b)"
| "fl_mul NaN _ = NaN"
| "fl_mul _ NaN = NaN"
| "fl_mul a b = signed_inf (fl_sign a * fl_sign b)"

text \<open>
  The quotient as IEEE defines it, a zero divisor included: \<open>0 / 0\<close> is NaN and a
  nonzero number over zero is an infinity.
\<close>

fun fl_quot :: "fl \<Rightarrow> fl \<Rightarrow> fl" where
  "fl_quot (Fin a) (Fin b) = (if b = 0 then signed_inf a else Fin (a / b))"
| "fl_quot NaN _ = NaN"
| "fl_quot _ NaN = NaN"
| "fl_quot (Fin a) _ = Fin 0"
| "fl_quot a (Fin b) = signed_inf (fl_sign a * (if b < 0 then - 1 else 1))"
| "fl_quot _ _ = NaN"

fun fl_sqrt :: "fl \<Rightarrow> fl" where
  "fl_sqrt (Fin a) = Fin (sqrt a)"
| "fl_sqrt v = v"

definition num_neg :: "num \<Rightarrow> num" where
  "num_neg a = (fst a, fl_neg (snd a))"

definition num_add :: "num \<Rightarrow> num \<Rightarrow> num" where
  "num_add a b = (join (fst a) (fst b), fl_add (snd a) (snd b))"

definition num_sub :: "num \<Rightarrow> num \<Rightarrow> num" where
  "num_sub a b = num_add a (num_neg b)"

definition num_mul :: "num \<Rightarrow> num \<Rightarrow> num" where
  "num_mul a b = (join (fst a) (fst b), fl_mul (snd a) (snd b))"

definition num_quot :: "num \<Rightarrow> num \<Rightarrow> num" where
  "num_quot a b = (join (fst a) (fst b), fl_quot (snd a) (snd b))"

text \<open>
  \<^verbatim>\<open>a / b\<close>.  Between Python numbers a zero divisor raises \<^verbatim>\<open>ZeroDivisionError\<close>,
  whatever the dividend.  With a numpy scalar on either side the division warns and
  returns the IEEE quotient, a NaN or an infinity.
\<close>

definition num_div :: "num \<Rightarrow> num \<Rightarrow> error + num" where
  "num_div a b =
     (if snd b = Fin 0 \<and> join (fst a) (fst b) = PyNum then Inl ZeroDivisionError
      else Inr (num_quot a b))"

text \<open>
  \<^verbatim>\<open>math.sqrt(a)\<close> takes either kind of number and returns a Python float.  It raises
  \<^verbatim>\<open>ValueError\<close> on a negative argument, minus infinity included, and returns NaN on
  NaN.
\<close>

definition math_sqrt :: "num \<Rightarrow> error + num" where
  "math_sqrt a =
     (case snd a of
        Fin r \<Rightarrow> if r < 0 then Inl ValueError else Inr (PyNum, fl_sqrt (snd a))
      | NInf \<Rightarrow> Inl ValueError
      | _ \<Rightarrow> Inr (PyNum, fl_sqrt (snd a)))"

text \<open>Whether a number is finite, and the real it then holds.\<close>

definition is_fin :: "num \<Rightarrow> bool" where
  "is_fin a = (case snd a of Fin r \<Rightarrow> True | _ \<Rightarrow> False)"

definition rv :: "num \<Rightarrow> real" where
  "rv a = (case snd a of Fin r \<Rightarrow> r | _ \<Rightarrow> 0)"

text \<open>\<^verbatim>\<open>GM = 4*math.pi**2\<close>, a module-level constant and a Python float.\<close>

definition GM :: real where
  "GM = 4 * pi ^ 2"

section \<open>The class \<^verbatim>\<open>particle2\<close>\<close>

record particle2 =
  mass :: num
  x :: num
  y :: num
  vx :: num
  vy :: num
  dt :: num
  halfdt :: num
  fx :: num
  fy :: num

text \<open>
  \<^verbatim>\<open>__init__(self, mass, x, y, vx, vy, fx, fy, dt)\<close>: the fields are assigned in the
  order of the source; \<^verbatim>\<open>halfdt\<close> is \<^verbatim>\<open>self.dt / 2.\<close>, whose divisor is not zero.
\<close>

definition particle2_init ::
  "num \<Rightarrow> num \<Rightarrow> num \<Rightarrow> num \<Rightarrow> num \<Rightarrow> num \<Rightarrow> num \<Rightarrow> num \<Rightarrow> particle2" where
  "particle2_init mass0 x0 y0 vx0 vy0 fx0 fy0 dt0 =
     \<lparr> mass = mass0, x = x0, y = y0, vx = vx0, vy = vy0,
       dt = dt0, halfdt = num_quot dt0 (py 2), fx = fx0, fy = fy0 \<rparr>"

text \<open>
  A method mutates \<^verbatim>\<open>self\<close> in place and returns \<^verbatim>\<open>None\<close>, or raises part-way.  Its
  model returns the object as the call leaves it, together with the exception if one was
  raised, so that the fields written before a raise stay visible.
\<close>

datatype outcome = Returns particle2 | Raises error particle2

fun state_of :: "outcome \<Rightarrow> particle2" where
  "state_of (Returns p) = p"
| "state_of (Raises e p) = p"

fun raised :: "outcome \<Rightarrow> error option" where
  "raised (Returns p) = None"
| "raised (Raises e p) = Some e"

text \<open>Sequencing of two statements: the second runs only when the first returned.\<close>

fun then_call :: "outcome \<Rightarrow> (particle2 \<Rightarrow> outcome) \<Rightarrow> outcome" where
  "then_call (Returns p) f = f p"
| "then_call (Raises e p) f = Raises e p"

text \<open>
  \<^verbatim>\<open>accel\<close>:
  \<^verbatim>\<open>self.vx += self.fx * self.halfdt / self.mass\<close>;
  \<^verbatim>\<open>self.vy += self.fy * self.halfdt / self.mass\<close>.
\<close>

definition accel :: "particle2 \<Rightarrow> outcome" where
  "accel p =
     (case num_div (num_mul (fx p) (halfdt p)) (mass p) of
        Inl e \<Rightarrow> Raises e p
      | Inr a \<Rightarrow>
          let p1 = p\<lparr>vx := num_add (vx p) a\<rparr> in
          (case num_div (num_mul (fy p1) (halfdt p1)) (mass p1) of
             Inl e \<Rightarrow> Raises e p1
           | Inr b \<Rightarrow> Returns (p1\<lparr>vy := num_add (vy p1) b\<rparr>)))"

text \<open>
  \<^verbatim>\<open>move\<close>:
  \<^verbatim>\<open>self.x += self.vx * self.dt + self.fx * self.dt * self.halfdt / self.mass\<close>;
  \<^verbatim>\<open>self.y += self.vy * self.dt + self.fy * self.dt * self.halfdt / self.mass\<close>.
\<close>

definition move :: "particle2 \<Rightarrow> outcome" where
  "move p =
     (case num_div (num_mul (num_mul (fx p) (dt p)) (halfdt p)) (mass p) of
        Inl e \<Rightarrow> Raises e p
      | Inr a \<Rightarrow>
          let p1 = p\<lparr>x := num_add (x p) (num_add (num_mul (vx p) (dt p)) a)\<rparr> in
          (case num_div (num_mul (num_mul (fy p1) (dt p1)) (halfdt p1)) (mass p1) of
             Inl e \<Rightarrow> Raises e p1
           | Inr b \<Rightarrow>
               Returns (p1\<lparr>y := num_add (y p1) (num_add (num_mul (vy p1) (dt p1)) b)\<rparr>)))"

text \<open>
  \<^verbatim>\<open>get_force\<close>:
  \<^verbatim>\<open>r = math.sqrt(self.x*self.x+self.y*self.y)\<close>; \<^verbatim>\<open>r3 = r * r * r\<close>;
  \<^verbatim>\<open>self.fx = -GM * self.mass * self.x/r3\<close>; \<^verbatim>\<open>self.fy = -GM * self.mass * self.y/r3\<close>.
  The right-hand side of an assignment is evaluated before the field is written.
  \<^verbatim>\<open>r3\<close> is a Python float, so each division is Python's when \<^verbatim>\<open>mass\<close> and the
  coordinate are Python numbers, and numpy's otherwise.
\<close>

definition get_force :: "particle2 \<Rightarrow> outcome" where
  "get_force p =
     (case math_sqrt (num_add (num_mul (x p) (x p)) (num_mul (y p) (y p))) of
        Inl e \<Rightarrow> Raises e p
      | Inr r \<Rightarrow>
          let r3 = num_mul (num_mul r r) r in
          (case num_div (num_mul (num_mul (num_neg (py GM)) (mass p)) (x p)) r3 of
             Inl e \<Rightarrow> Raises e p
           | Inr a \<Rightarrow>
               let p1 = p\<lparr>fx := a\<rparr> in
               (case num_div (num_mul (num_mul (num_neg (py GM)) (mass p1)) (y p1)) r3 of
                  Inl e \<Rightarrow> Raises e p1
                | Inr b \<Rightarrow> Returns (p1\<lparr>fy := b\<rparr>))))"

text \<open>
  \<^verbatim>\<open>verlet2\<close>: \<^verbatim>\<open>self.move()\<close>, \<^verbatim>\<open>self.accel()\<close>, \<^verbatim>\<open>self.get_force()\<close>,
  \<^verbatim>\<open>self.accel()\<close>.
\<close>

definition verlet2 :: "particle2 \<Rightarrow> outcome" where
  "verlet2 p = then_call (then_call (then_call (move p) accel) get_force) accel"

text \<open>
  \<^verbatim>\<open>verlet(self, dt)\<close>.  The names \<^verbatim>\<open>fx\<close> and \<^verbatim>\<open>fy\<close> are not assigned in the
  method body, so Python resolves them as module-level names when the line is executed.
  The module namespace is a parameter: each of the two names is bound or not.  With
  both bound, \<^verbatim>\<open>self.get_force(fx, fy)\<close> passes two arguments to a method that takes
  none beside \<^verbatim>\<open>self\<close>, which raises \<^verbatim>\<open>TypeError\<close> before the body of
  \<^verbatim>\<open>get_force\<close> runs.
\<close>

record globals =
  g_fx :: "num option"
  g_fy :: "num option"

definition load_global :: "num option \<Rightarrow> error + num" where
  "load_global v = (case v of None \<Rightarrow> Inl NameError | Some a \<Rightarrow> Inr a)"

definition get_force_2args :: "num \<Rightarrow> num \<Rightarrow> particle2 \<Rightarrow> outcome" where
  "get_force_2args a b p = Raises TypeError p"

definition verlet :: "globals \<Rightarrow> num \<Rightarrow> particle2 \<Rightarrow> outcome" where
  "verlet g dt_arg p =
     (case load_global (g_fx g) of
        Inl e \<Rightarrow> Raises e p
      | Inr gfx \<Rightarrow>
     (case load_global (g_fy g) of
        Inl e \<Rightarrow> Raises e p
      | Inr gfy \<Rightarrow>
          then_call (then_call (get_force_2args gfx gfy p)
            (\<lambda>p. let p = p\<lparr>x := num_add (x p) (num_add (num_mul (vx p) dt_arg)
                             (num_mul (num_mul (num_mul (py 0.5) gfx) dt_arg) dt_arg))\<rparr>;
                      p = p\<lparr>y := num_add (y p) (num_add (num_mul (vy p) dt_arg)
                             (num_mul (num_mul (num_mul (py 0.5) gfy) dt_arg) dt_arg))\<rparr>;
                      p = p\<lparr>vx := num_add (vx p) (num_mul (num_mul (py 0.5) gfx) dt_arg)\<rparr>;
                      p = p\<lparr>vy := num_add (vy p) (num_mul (num_mul (py 0.5) gfy) dt_arg)\<rparr>
                  in get_force_2args gfx gfy p))
            (\<lambda>p. let p = p\<lparr>vx := num_add (vx p) (num_mul (num_mul (py 0.5) gfx) dt_arg)\<rparr>;
                      p = p\<lparr>vy := num_add (vy p) (num_mul (num_mul (py 0.5) gfy) dt_arg)\<rparr>
                  in Returns p)))"

section \<open>The methods on objects in a heap\<close>












section \<open>The driver cell\<close>

text \<open>
  The second code cell is a script over module-level names.  The values it assigns as
  literals (\<^verbatim>\<open>NPLANETS\<close>, \<^verbatim>\<open>m1\<close>, \<^verbatim>\<open>r1\<close>, \<^verbatim>\<open>m2\<close>, \<^verbatim>\<open>r2\<close>, \<^verbatim>\<open>dt\<close>,
  \<^verbatim>\<open>tmax\<close>) are the parameters of the model, an integer and six finite Python
  floats; the module-level \<^verbatim>\<open>dt\<close> is named \<open>dt_glob\<close> here, since \<open>dt\<close> is the
  field of \<open>particle2\<close>.
\<close>

record params =
  NPLANETS :: int
  m1 :: real
  r1 :: real
  m2 :: real
  r2 :: real
  dt_glob :: real
  tmax :: real

fun bind_err :: "error + 'a \<Rightarrow> ('a \<Rightarrow> error + 'b) \<Rightarrow> error + 'b" where
  "bind_err (Inl e) f = Inl e"
| "bind_err (Inr v) f = f v"

text \<open>
  \<^verbatim>\<open>int(q)\<close> on a float truncates towards zero; it raises \<^verbatim>\<open>ValueError\<close> on NaN and
  \<^verbatim>\<open>OverflowError\<close> on an infinity.
\<close>

definition py_int :: "num \<Rightarrow> error + int" where
  "py_int q =
     (case snd q of
        Fin r \<Rightarrow> Inr (if 0 \<le> r then \<lfloor>r\<rfloor> else \<lceil>r\<rceil>)
      | NaN \<Rightarrow> Inl ValueError
      | _ \<Rightarrow> Inl OverflowError)"

text \<open>
  Two-dimensional arrays of \<^verbatim>\<open>float64\<close> are lists of rows of doubles.
  \<^verbatim>\<open>np.zeros(shape=(rows, cols))\<close> raises \<^verbatim>\<open>ValueError\<close> on a negative dimension.  The
  script indexes arrays with non-negative indices only, and an index beyond its axis
  raises \<^verbatim>\<open>IndexError\<close>.  A number of either kind can be stored; an entry read is a
  numpy scalar.
\<close>

type_synonym matrix = "fl list list"

definition np_zeros :: "int \<Rightarrow> int \<Rightarrow> error + matrix" where
  "np_zeros rows cols =
     (if rows < 0 \<or> cols < 0 then Inl ValueError
      else Inr (replicate (nat rows) (replicate (nat cols) (Fin 0))))"

definition setitem :: "matrix \<Rightarrow> nat \<Rightarrow> nat \<Rightarrow> num \<Rightarrow> error + matrix" where
  "setitem a i j v =
     (if i < length a \<and> j < length (a ! i) then Inr (a[i := (a ! i)[j := snd v]])
      else Inl IndexError)"

definition getitem :: "matrix \<Rightarrow> nat \<Rightarrow> nat \<Rightarrow> error + num" where
  "getitem a i j =
     (if i < length a \<and> j < length (a ! i) then Inr (NpNum, a ! i ! j) else Inl IndexError)"

definition list_get :: "'a list \<Rightarrow> nat \<Rightarrow> error + 'a" where
  "list_get xs i = (if i < length xs then Inr (xs ! i) else Inl IndexError)"

text \<open>
  An entry of the list \<^verbatim>\<open>planets\<close> is first the placeholder \<^verbatim>\<open>[particle2]\<close> appended
  by the first loop, then a \<^verbatim>\<open>particle2\<close> object.  A placeholder has no attribute
  \<^verbatim>\<open>verlet2\<close>.
\<close>

datatype slot = Placeholder | Body particle2

record driver_state =
  nsteps :: int
  x_arr :: matrix
  y_arr :: matrix
  vx_arr :: matrix
  vy_arr :: matrix
  energy :: matrix
  planets :: "slot list"
  globs :: globals

text \<open>A \<^verbatim>\<open>for\<close> loop over a list of indices; an exception in the body ends the loop.\<close>

fun for_each :: "'a list \<Rightarrow> ('a \<Rightarrow> 's \<Rightarrow> error + 's) \<Rightarrow> 's \<Rightarrow> error + 's" where
  "for_each [] f s = Inr s"
| "for_each (a # as) f s = bind_err (f a s) (for_each as f)"

text \<open>
  Lines 136 to 153 of the notebook file: \<^verbatim>\<open>nsteps = int(tmax/dt)\<close>, the five arrays
  of zeros, and the initial conditions of the two bodies written at row 0.
  \<^verbatim>\<open>v1 = math.sqrt(GM/r1)\<close> and \<^verbatim>\<open>v2 = math.sqrt(GM/r2)\<close> are computed before.
  The square \<^verbatim>\<open>v1**2\<close> is the product of \<^verbatim>\<open>v1\<close> with itself.
\<close>

definition nsteps_of :: "params \<Rightarrow> error + int" where
  "nsteps_of c = bind_err (num_div (py (tmax c)) (py (dt_glob c))) py_int"

definition circular_speed :: "real \<Rightarrow> error + num" where
  "circular_speed r = bind_err (num_div (py GM) (py r)) math_sqrt"

definition initial_conditions :: "params \<Rightarrow> error + driver_state" where
  "initial_conditions c =
     bind_err (circular_speed (r1 c)) (\<lambda>v1.
     bind_err (circular_speed (r2 c)) (\<lambda>v2.
     bind_err (nsteps_of c) (\<lambda>ns.
     bind_err (np_zeros ns (NPLANETS c)) (\<lambda>xa.
     bind_err (np_zeros ns (NPLANETS c)) (\<lambda>ya.
     bind_err (np_zeros ns (NPLANETS c)) (\<lambda>vxa.
     bind_err (np_zeros ns (NPLANETS c)) (\<lambda>vya.
     bind_err (np_zeros ns (NPLANETS c)) (\<lambda>ea.
     bind_err (setitem xa 0 0 (py (r1 c))) (\<lambda>xa.
     bind_err (setitem ya 0 0 (py 0)) (\<lambda>ya.
     bind_err (setitem vxa 0 0 (py 0)) (\<lambda>vxa.
     bind_err (setitem vya 0 0 v1) (\<lambda>vya.
     bind_err (num_div (py GM) (py (r1 c))) (\<lambda>u1.
     bind_err (setitem ea 0 0 (num_sub (num_mul (py 0.5) (num_mul v1 v1)) u1)) (\<lambda>ea.
     bind_err (setitem xa 0 1 (py (r2 c))) (\<lambda>xa.
     bind_err (setitem ya 0 1 (py 0)) (\<lambda>ya.
     bind_err (setitem vxa 0 1 (py 0)) (\<lambda>vxa.
     bind_err (setitem vya 0 1 v2) (\<lambda>vya.
     bind_err (num_div (py GM) (py (r2 c))) (\<lambda>u2.
     bind_err (setitem ea 0 1 (num_sub (num_mul (py 0.5) (num_mul v2 v2)) u2)) (\<lambda>ea.
       Inr \<lparr> nsteps = ns, x_arr = xa, y_arr = ya, vx_arr = vxa, vy_arr = vya,
             energy = ea, planets = [], globs = \<lparr> g_fx = None, g_fy = None \<rparr> \<rparr>
     ))))))))))))))))))))"

text \<open>
  Lines 155 to 167: \<^verbatim>\<open>NPLANETS\<close> placeholders are appended to \<^verbatim>\<open>planets\<close>; then,
  for each \<^verbatim>\<open>i\<close>, \<^verbatim>\<open>planets[i]\<close> becomes
  \<^verbatim>\<open>particle2(m[i], x[0,i], y[0,i], vx[0,i], vy[0,i], 0, 0, dt)\<close> with \<^verbatim>\<open>m = [m1, m2]\<close>,
  and its force is computed in line and stored in \<^verbatim>\<open>planets[i].fx\<close>, \<^verbatim>\<open>planets[i].fy\<close>.
  The position and velocity of such a body are numpy scalars, its mass and time step
  Python floats.  The script's \<^verbatim>\<open>fx\<close> and \<^verbatim>\<open>fy\<close> are module-level names, bound from
  here on.
\<close>

definition append_placeholder :: "nat \<Rightarrow> driver_state \<Rightarrow> error + driver_state" where
  "append_placeholder i st = Inr (st\<lparr>planets := planets st @ [Placeholder]\<rparr>)"

definition create_planet :: "params \<Rightarrow> nat \<Rightarrow> driver_state \<Rightarrow> error + driver_state" where
  "create_planet c i st =
     bind_err (list_get [py (m1 c), py (m2 c)] i) (\<lambda>mi.
     bind_err (getitem (x_arr st) 0 i) (\<lambda>x0.
     bind_err (getitem (y_arr st) 0 i) (\<lambda>y0.
     bind_err (getitem (vx_arr st) 0 i) (\<lambda>vx0.
     bind_err (getitem (vy_arr st) 0 i) (\<lambda>vy0.
     if \<not> i < length (planets st) then Inl IndexError else
     let p = particle2_init mi x0 y0 vx0 vy0 (py 0) (py 0) (py (dt_glob c)) in
     bind_err (math_sqrt (num_add (num_mul (x p) (x p)) (num_mul (y p) (y p)))) (\<lambda>r.
     let r3 = num_mul (num_mul r r) r in
     bind_err (num_div (num_mul (num_mul (num_neg (py GM)) (mass p)) (x p)) r3) (\<lambda>gfx.
     bind_err (num_div (num_mul (num_mul (num_neg (py GM)) (mass p)) (y p)) r3) (\<lambda>gfy.
       Inr (st\<lparr>planets := (planets st)[i := Body (p\<lparr>fx := gfx, fy := gfy\<rparr>)],
               globs := \<lparr> g_fx = Some gfx, g_fy = Some gfy \<rparr>\<rparr>)
     ))))))))"

definition prepare :: "params \<Rightarrow> error + driver_state" where
  "prepare c =
     bind_err (initial_conditions c) (\<lambda>st.
     bind_err (for_each [0..<nat (NPLANETS c)] append_placeholder st)
       (for_each [0..<nat (NPLANETS c)] (create_planet c)))"

text \<open>
  Lines 169 to 175: \<^verbatim>\<open>for i in range(1,nsteps): for n in range(0,NPLANETS):\<close>
  \<^verbatim>\<open>planets[n].verlet2()\<close>, then the four fields are recorded at \<^verbatim>\<open>[i,n]\<close>.
  An exception raised by \<^verbatim>\<open>verlet2\<close> ends the script.  The last line of the cell,
  \<^verbatim>\<open>t = np.linspace(0.,tmax,nsteps)\<close>, builds the time axis for the plot and reads
  neither the arrays nor the bodies; it is not part of the model.
\<close>

definition step_planet :: "nat \<Rightarrow> nat \<Rightarrow> driver_state \<Rightarrow> error + driver_state" where
  "step_planet i n st =
     bind_err (list_get (planets st) n) (\<lambda>sl.
     case sl of
       Placeholder \<Rightarrow> Inl AttributeError
     | Body p \<Rightarrow>
         (case verlet2 p of
            Raises e p' \<Rightarrow> Inl e
          | Returns p' \<Rightarrow>
              bind_err (setitem (x_arr st) i n (x p')) (\<lambda>xa.
              bind_err (setitem (y_arr st) i n (y p')) (\<lambda>ya.
              bind_err (setitem (vx_arr st) i n (vx p')) (\<lambda>vxa.
              bind_err (setitem (vy_arr st) i n (vy p')) (\<lambda>vya.
                Inr (st\<lparr>planets := (planets st)[n := Body p'],
                        x_arr := xa, y_arr := ya, vx_arr := vxa, vy_arr := vya\<rparr>)
              ))))))"

definition step_all :: "params \<Rightarrow> nat \<Rightarrow> driver_state \<Rightarrow> error + driver_state" where
  "step_all c i st = for_each [0..<nat (NPLANETS c)] (step_planet i) st"

definition driver :: "params \<Rightarrow> error + driver_state" where
  "driver c =
     bind_err (prepare c) (\<lambda>st. for_each [1..<nat (nsteps st)] (step_all c) st)"

section \<open>Notions used to state the properties\<close>

text \<open>
  The central force on a body of mass \<open>m\<close> at a position other than the origin, as the
  specification writes it: \<open>- GM * m * position / |position|^3\<close> with
  \<open>|position| = sqrt (x\<^sup>2 + y\<^sup>2)\<close>.
\<close>

definition central_force :: "real \<Rightarrow> real \<times> real \<Rightarrow> real \<times> real" where
  "central_force m pos =
     (- GM * m * fst pos / (sqrt ((fst pos)\<^sup>2 + (snd pos)\<^sup>2)) ^ 3,
      - GM * m * snd pos / (sqrt ((fst pos)\<^sup>2 + (snd pos)\<^sup>2)) ^ 3)"

text \<open>
  The stored force is fresh when mass and position are finite, the body is not at the
  origin, where the central force is undefined, and the force fields hold the central
  force at the stored position.
\<close>

definition force_fresh :: "particle2 \<Rightarrow> bool" where
  "force_fresh p \<longleftrightarrow>
     is_fin (mass p) \<and> is_fin (x p) \<and> is_fin (y p) \<and>
     (rv (x p), rv (y p)) \<noteq> (0, 0) \<and>
     snd (fx p) = Fin (fst (central_force (rv (mass p)) (rv (x p), rv (y p)))) \<and>
     snd (fy p) = Fin (snd (central_force (rv (mass p)) (rv (x p), rv (y p))))"

text \<open>What the constructor establishes about the two time-step fields.\<close>

definition constructed :: "particle2 \<Rightarrow> bool" where
  "constructed p \<longleftrightarrow> halfdt p = num_quot (dt p) (py 2)"

text \<open>A body all of whose fields are finite.\<close>

definition finite_body :: "particle2 \<Rightarrow> bool" where
  "finite_body p \<longleftrightarrow>
     is_fin (mass p) \<and> is_fin (x p) \<and> is_fin (y p) \<and> is_fin (vx p) \<and> is_fin (vy p) \<and>
     is_fin (dt p) \<and> is_fin (halfdt p) \<and> is_fin (fx p) \<and> is_fin (fy p)"

text \<open>
  A body whose position and force are numpy scalars, as they are for the bodies the
  driver builds.
\<close>

definition array_body :: "particle2 \<Rightarrow> bool" where
  "array_body p \<longleftrightarrow>
     fst (x p) = NpNum \<and> fst (y p) = NpNum \<and> fst (fx p) = NpNum \<and> fst (fy p) = NpNum"


text \<open>
  The body the driver has built for mass \<open>m\<close>, orbit radius \<open>r\<close> and time step
  \<open>d\<close> when its stepping loop starts: the constructor call of line 161 on the entries
  of row 0, then the force of lines 162 to 167, which are the statements of
  \<^verbatim>\<open>get_force\<close>.  And an array of \<open>R\<close> rows of two entries that holds \<open>a\<close> and
  \<open>b\<close> in row 0 and zeros below.
\<close>

definition built_body :: "real \<Rightarrow> real \<Rightarrow> real \<Rightarrow> particle2" where
  "built_body m r d =
     state_of (get_force
       (particle2_init (py m) (np r) (np 0) (np 0) (np (sqrt (GM / r))) (py 0) (py 0) (py d)))"

definition first_row :: "nat \<Rightarrow> real \<Rightarrow> real \<Rightarrow> matrix" where
  "first_row R a b = (replicate R [Fin 0, Fin 0])[0 := [Fin a, Fin b]]"


text \<open>
  What the driver records of a body, and what its arrays hold for body \<open>n\<close> at row
  \<open>i\<close>.
\<close>

definition sample :: "particle2 \<Rightarrow> fl \<times> fl \<times> fl \<times> fl" where
  "sample p = (snd (x p), snd (y p), snd (vx p), snd (vy p))"




text \<open>
  Concrete bodies and namespaces on which the theorems are exercised.  The first is a
  body of Python floats on the \<open>x\<close> axis with the central force stored; the second is
  \<^verbatim>\<open>particle2()\<close>, at the origin; the third is at the origin with position and velocity
  read from an array, as the driver passes them.  The two landers carry the central
  force at \<open>(1, 0)\<close> and a velocity that makes the drift end on the origin, one with
  Python floats and one with numpy scalars.
\<close>

definition body_on_axis :: particle2 where
  "body_on_axis = \<lparr> mass = py 1, x = py 1, y = py 0, vx = py 0, vy = py 1,
                    dt = py 2, halfdt = py 1, fx = py (- GM), fy = py 0 \<rparr>"

definition body_at_origin :: particle2 where
  "body_at_origin = particle2_init (py 1) (py 0) (py 0) (py 0) (py 0) (py 0) (py 0) (py 0.001)"

definition array_body_at_origin :: particle2 where
  "array_body_at_origin =
     particle2_init (py 1) (np 0) (np 0) (np 0) (np 0) (py 0) (py 0) (py 0.001)"



definition globals_bound :: globals where
  "globals_bound = \<lparr> g_fx = Some (np 0), g_fy = Some (np 0) \<rparr>"




definition one_row_run :: params where
  "one_row_run = \<lparr> NPLANETS = 2, m1 = 0.1, r1 = 1, m2 = 0.01, r2 = 4 / 3,
                    dt_glob = 1, tmax = 1 \<rparr>"

definition no_row_run :: params where
  "no_row_run = \<lparr> NPLANETS = 2, m1 = 0.1, r1 = 1, m2 = 0.01, r2 = 4 / 3,
                   dt_glob = 1, tmax = 0 \<rparr>"

definition no_body_run :: params where
  "no_body_run = \<lparr> NPLANETS = 0, m1 = 0.1, r1 = 1, m2 = 0.01, r2 = 4 / 3,
                    dt_glob = 1, tmax = 2 \<rparr>"

section \<open>Facts about the numbers\<close>

lemma GM_pos: "0 < GM"
  by (simp add: GM_def)

lemma GM_not_neg: "\<not> GM < 0"
  using GM_pos by simp

lemma join_simps:
  "join k PyNum = k" "join PyNum k = k" "join k NpNum = NpNum" "join NpNum k = NpNum"
  "join k k = k"
  by (cases k; simp)+


lemma join_assoc: "join (join i j) k = join i (join j k)"
  by (cases i; cases j; cases k) simp_all

lemma join_commute: "join j k = join k j"
  by (cases j; cases k) simp_all

lemma join_left_commute: "join i (join j k) = join j (join i k)"
  by (cases i; cases j; cases k) simp_all

lemma join_left_idem: "join j (join j k) = join j k"
  by (cases j; cases k) simp_all

lemmas join_aci = join_assoc join_commute join_left_commute join_left_idem join_simps

lemma is_fin_Fin: "is_fin (k, Fin r)" "rv (k, Fin r) = r"
  by (simp_all add: is_fin_def rv_def)


lemma not_fin: "\<not> is_fin (k, NaN)" "\<not> is_fin (k, PInf)" "\<not> is_fin (k, NInf)"
  by (simp_all add: is_fin_def)

lemma num_neg_fin: "is_fin a \<Longrightarrow> num_neg a = (fst a, Fin (- rv a))"
  by (cases a; cases "snd a") (simp_all add: is_fin_def rv_def num_neg_def)

lemma num_add_fin:
  "is_fin a \<Longrightarrow> is_fin b \<Longrightarrow> num_add a b = (join (fst a) (fst b), Fin (rv a + rv b))"
  by (cases a; cases "snd a"; cases b; cases "snd b")
    (simp_all add: is_fin_def rv_def num_add_def)

lemma num_mul_fin:
  "is_fin a \<Longrightarrow> is_fin b \<Longrightarrow> num_mul a b = (join (fst a) (fst b), Fin (rv a * rv b))"
  by (cases a; cases "snd a"; cases b; cases "snd b")
    (simp_all add: is_fin_def rv_def num_mul_def)

lemma num_quot_fin:
  "is_fin a \<Longrightarrow> is_fin b \<Longrightarrow> rv b \<noteq> 0 \<Longrightarrow>
   num_quot a b = (join (fst a) (fst b), Fin (rv a / rv b))"
  by (cases a; cases "snd a"; cases b; cases "snd b")
    (simp_all add: is_fin_def rv_def num_quot_def)

lemma num_div_nonzero: "snd b \<noteq> Fin 0 \<Longrightarrow> num_div a b = Inr (num_quot a b)"
  by (simp add: num_div_def)


lemma num_div_python_zero:
  "snd b = Fin 0 \<Longrightarrow> fst a = PyNum \<Longrightarrow> fst b = PyNum \<Longrightarrow> num_div a b = Inl ZeroDivisionError"
  by (simp add: num_div_def)


lemma math_sqrt_fin: "is_fin a \<Longrightarrow> 0 \<le> rv a \<Longrightarrow> math_sqrt a = Inr (py (sqrt (rv a)))"
  by (cases a; cases "snd a") (simp_all add: is_fin_def rv_def math_sqrt_def)



section \<open>What each method does when it returns\<close>


lemma accel_raises:
  "snd (mass p) = Fin 0 \<Longrightarrow> fst (mass p) = PyNum \<Longrightarrow> fst (fx p) = PyNum \<Longrightarrow>
   fst (halfdt p) = PyNum \<Longrightarrow> accel p = Raises ZeroDivisionError p"
  by (simp add: accel_def num_div_def num_mul_def)


lemma get_force_returns:
  assumes "is_fin (x p)" "is_fin (y p)" "rv (x p) \<noteq> 0 \<or> rv (y p) \<noteq> 0"
  shows "get_force p =
     Returns (p\<lparr>fx := num_quot (num_mul (num_mul (num_neg (py GM)) (mass p)) (x p))
                      (py (sqrt (rv (x p) * rv (x p) + rv (y p) * rv (y p)) ^ 3)),
               fy := num_quot (num_mul (num_mul (num_neg (py GM)) (mass p)) (y p))
                      (py (sqrt (rv (x p) * rv (x p) + rv (y p) * rv (y p)) ^ 3))\<rparr>)"
proof -
  have s: "math_sqrt (num_add (num_mul (x p) (x p)) (num_mul (y p) (y p)))
      = Inr (py (sqrt (rv (x p) * rv (x p) + rv (y p) * rv (y p))))"
    using assms(1,2)
    by (subst math_sqrt_fin) (simp_all add: num_mul_fin num_add_fin is_fin_Fin)
  have n: "sqrt (rv (x p) * rv (x p) + rv (y p) * rv (y p)) ^ 3 \<noteq> 0"
    using assms(3) by auto
  show ?thesis
    using n by (simp add: get_force_def s Let_def num_mul_fin is_fin_Fin power3_eq_cube
        num_div_nonzero)
qed

lemma get_force_returns_fin:
  assumes "is_fin (mass p)" "is_fin (x p)" "is_fin (y p)" "rv (x p) \<noteq> 0 \<or> rv (y p) \<noteq> 0"
  shows "get_force p =
     Returns (p\<lparr>fx := (join (fst (mass p)) (fst (x p)),
                       Fin (- GM * rv (mass p) * rv (x p)
                            / sqrt (rv (x p) * rv (x p) + rv (y p) * rv (y p)) ^ 3)),
               fy := (join (fst (mass p)) (fst (y p)),
                       Fin (- GM * rv (mass p) * rv (y p)
                            / sqrt (rv (x p) * rv (x p) + rv (y p) * rv (y p)) ^ 3))\<rparr>)"
proof -
  have n: "sqrt (rv (x p) * rv (x p) + rv (y p) * rv (y p)) ^ 3 \<noteq> 0"
    using assms(4) by auto
  show ?thesis
    using assms(1-3) n
    by (simp add: get_force_returns [OF assms(2-4)] num_neg_fin num_mul_fin num_quot_fin
        is_fin_Fin join_simps)
qed

section \<open>Force evaluation\<close>



text \<open>
  C4.  For a body at a finite position with a positive distance from the origin, a
  second call of \<^verbatim>\<open>get_force\<close> right after the first returns with the very state the
  first call left: the two calls together have the effect of one.
\<close>

theorem get_force_idempotent:
  assumes "is_fin (x p)" and "is_fin (y p)"
    and "0 < sqrt ((rv (x p))\<^sup>2 + (rv (y p))\<^sup>2)"
  shows "\<exists>q. get_force p = Returns q \<and> get_force q = Returns q \<and>
             then_call (get_force p) get_force = get_force p"
proof -
  from assms(3) have pos: "rv (x p) \<noteq> 0 \<or> rv (y p) \<noteq> 0"
    by auto
  define q where
    "q = p\<lparr>fx := num_quot (num_mul (num_mul (num_neg (py GM)) (mass p)) (x p))
                      (py (sqrt (rv (x p) * rv (x p) + rv (y p) * rv (y p)) ^ 3)),
           fy := num_quot (num_mul (num_mul (num_neg (py GM)) (mass p)) (y p))
                      (py (sqrt (rv (x p) * rv (x p) + rv (y p) * rv (y p)) ^ 3))\<rparr>"
  have first: "get_force p = Returns q"
    unfolding q_def using assms(1,2) pos by (rule get_force_returns)
  have same: "x q = x p" "y q = y p" "mass q = mass p"
    by (simp_all add: q_def)
  from assms(1,2) pos have "is_fin (x q)" "is_fin (y q)" "rv (x q) \<noteq> 0 \<or> rv (y q) \<noteq> 0"
    by (simp_all add: same)
  then have "get_force q =
     Returns (q\<lparr>fx := num_quot (num_mul (num_mul (num_neg (py GM)) (mass q)) (x q))
                      (py (sqrt (rv (x q) * rv (x q) + rv (y q) * rv (y q)) ^ 3)),
               fy := num_quot (num_mul (num_mul (num_neg (py GM)) (mass q)) (y q))
                      (py (sqrt (rv (x q) * rv (x q) + rv (y q) * rv (y q)) ^ 3))\<rparr>)"
    by (rule get_force_returns)
  also have "\<dots> = Returns q"
    by (simp add: same) (simp add: q_def)
  finally have second: "get_force q = Returns q" .
  from first second show ?thesis
    by simp
qed

theorem get_force_idempotent_witness:
  "is_fin (x body_on_axis) \<and> is_fin (y body_on_axis) \<and>
   0 < sqrt ((rv (x body_on_axis))\<^sup>2 + (rv (y body_on_axis))\<^sup>2) \<and>
   get_force body_on_axis = Returns body_on_axis \<and>
   then_call (get_force body_on_axis) get_force = get_force body_on_axis"
proof -
  have h: "is_fin (x body_on_axis)" "is_fin (y body_on_axis)"
    "0 < sqrt ((rv (x body_on_axis))\<^sup>2 + (rv (y body_on_axis))\<^sup>2)"
    by (simp_all add: body_on_axis_def is_fin_Fin)
  have "is_fin (mass body_on_axis)" "rv (x body_on_axis) \<noteq> 0 \<or> rv (y body_on_axis) \<noteq> 0"
    by (simp_all add: body_on_axis_def is_fin_Fin)
  from get_force_returns_fin [OF this(1) h(1,2) this(2)]
  have r: "get_force body_on_axis = Returns body_on_axis"
    by (simp add: body_on_axis_def is_fin_Fin)
  from get_force_idempotent [OF h] h r show ?thesis
    by simp
qed

lemma get_force_origin_cases:
  assumes "snd (x p) = Fin 0" and "snd (y p) = Fin 0"
  shows "get_force p =
    (if join (fst (mass p)) (fst (x p)) = PyNum then Raises ZeroDivisionError p
     else if join (fst (mass p)) (fst (y p)) = PyNum
       then Raises ZeroDivisionError (p\<lparr>fx := (NpNum, NaN)\<rparr>)
     else Returns (p\<lparr>fx := (NpNum, NaN), fy := (NpNum, NaN)\<rparr>))"
proof -
  have fx0: "is_fin (x p)" "rv (x p) = 0" and fy0: "is_fin (y p)" "rv (y p) = 0"
    using assms by (simp_all add: is_fin_def rv_def)
  have s: "math_sqrt (num_add (num_mul (x p) (x p)) (num_mul (y p) (y p))) = Inr (py 0)"
    using fx0 fy0 by (subst math_sqrt_fin) (simp_all add: num_mul_fin num_add_fin is_fin_Fin)
  have z: "fl_quot (fl_mul (fl_mul (Fin (- GM)) v) (Fin 0)) (Fin 0) = NaN" for v
    by (cases v) (simp_all add: signed_inf_def)
  have dx: "num_mul (num_mul (num_neg (py GM)) (mass p)) (x p)
      = (join (fst (mass p)) (fst (x p)), fl_mul (fl_mul (Fin (- GM)) (snd (mass p))) (Fin 0))"
    by (simp add: num_mul_def num_neg_def assms join_simps)
  have dy: "num_mul (num_mul (num_neg (py GM)) (mass p)) (y p)
      = (join (fst (mass p)) (fst (y p)), fl_mul (fl_mul (Fin (- GM)) (snd (mass p))) (Fin 0))"
    by (simp add: num_mul_def num_neg_def assms join_simps)
  show ?thesis
    by (cases "fst (mass p)"; cases "fst (x p)"; cases "fst (y p)")
      (simp_all add: get_force_def s Let_def num_mul_fin is_fin_Fin dx dy num_div_def
        num_quot_def z)
qed

text \<open>
  C8, as the code has it.  Let the position of a body be exactly the origin.  When its
  mass and its \<^verbatim>\<open>x\<close> are Python numbers, \<^verbatim>\<open>get_force\<close> raises \<^verbatim>\<open>ZeroDivisionError\<close>
  at the division that computes the first component, and the body is as it was before
  the call.  When one of them is a numpy scalar, that division returns NaN, which is
  stored in \<^verbatim>\<open>fx\<close>; the second division then raises in the same way when the mass and
  \<^verbatim>\<open>y\<close> are Python numbers, and otherwise the call returns normally with NaN stored
  in \<^verbatim>\<open>fy\<close> as well.
\<close>

theorem get_force_at_origin:
  assumes "snd (x p) = Fin 0" and "snd (y p) = Fin 0"
  shows "get_force p =
    (if join (fst (mass p)) (fst (x p)) = PyNum then Raises ZeroDivisionError p
     else if join (fst (mass p)) (fst (y p)) = PyNum
       then Raises ZeroDivisionError (p\<lparr>fx := (NpNum, NaN)\<rparr>)
     else Returns (p\<lparr>fx := (NpNum, NaN), fy := (NpNum, NaN)\<rparr>))"
  using assms by (rule get_force_origin_cases)

theorem get_force_at_origin_witness:
  "snd (x body_at_origin) = Fin 0 \<and> snd (y body_at_origin) = Fin 0 \<and>
   get_force body_at_origin = Raises ZeroDivisionError body_at_origin \<and>
   snd (x array_body_at_origin) = Fin 0 \<and> snd (y array_body_at_origin) = Fin 0 \<and>
   get_force array_body_at_origin
     = Returns (array_body_at_origin\<lparr>fx := (NpNum, NaN), fy := (NpNum, NaN)\<rparr>)"
proof -
  have a: "snd (x body_at_origin) = Fin 0" "snd (y body_at_origin) = Fin 0"
    and b: "snd (x array_body_at_origin) = Fin 0" "snd (y array_body_at_origin) = Fin 0"
    by (simp_all add: body_at_origin_def array_body_at_origin_def particle2_init_def)
  have "get_force body_at_origin = Raises ZeroDivisionError body_at_origin"
    using get_force_at_origin [OF a] by (simp add: body_at_origin_def particle2_init_def)
  moreover have "get_force array_body_at_origin
     = Returns (array_body_at_origin\<lparr>fx := (NpNum, NaN), fy := (NpNum, NaN)\<rparr>)"
    using get_force_at_origin [OF b]
    by (simp add: array_body_at_origin_def particle2_init_def)
  ultimately show ?thesis
    using a b by simp
qed

text \<open>
  C8, as the claim has it, says that \<^verbatim>\<open>get_force\<close> raises for every body at the
  origin and never stores a value that is not finite.  A body at the origin whose
  position was read from an array, as the driver passes it to the constructor, makes
  the call return normally with NaN in both force fields.
\<close>

theorem get_force_stores_nan:
  "snd (x array_body_at_origin) = Fin 0 \<and> snd (y array_body_at_origin) = Fin 0 \<and>
   raised (get_force array_body_at_origin) = None \<and>
   fx (state_of (get_force array_body_at_origin)) = (NpNum, NaN) \<and>
   fy (state_of (get_force array_body_at_origin)) = (NpNum, NaN)"
  by (simp add: get_force_def array_body_at_origin_def particle2_init_def math_sqrt_def
      num_add_def num_mul_def num_neg_def num_div_def num_quot_def signed_inf_def)

section \<open>Frame conditions\<close>

lemma state_of_then_call:
  assumes "\<And>q. g (state_of (f q)) = g q"
  shows "g (state_of (then_call oc f)) = g (state_of oc)"
  using assms by (cases oc) simp_all

lemma accel_frame:
  "mass (state_of (accel p)) = mass p" "dt (state_of (accel p)) = dt p"
  "halfdt (state_of (accel p)) = halfdt p" "x (state_of (accel p)) = x p"
  "y (state_of (accel p)) = y p" "fx (state_of (accel p)) = fx p"
  "fy (state_of (accel p)) = fy p"
  by (simp_all add: accel_def Let_def split: sum.splits)

lemma move_frame:
  "mass (state_of (move p)) = mass p" "dt (state_of (move p)) = dt p"
  "halfdt (state_of (move p)) = halfdt p" "vx (state_of (move p)) = vx p"
  "vy (state_of (move p)) = vy p" "fx (state_of (move p)) = fx p"
  "fy (state_of (move p)) = fy p"
  by (simp_all add: move_def Let_def split: sum.splits)

lemma get_force_frame:
  "mass (state_of (get_force p)) = mass p" "dt (state_of (get_force p)) = dt p"
  "halfdt (state_of (get_force p)) = halfdt p" "x (state_of (get_force p)) = x p"
  "y (state_of (get_force p)) = y p" "vx (state_of (get_force p)) = vx p"
  "vy (state_of (get_force p)) = vy p"
  by (simp_all add: get_force_def Let_def split: sum.splits)

lemma verlet2_frame:
  "mass (state_of (verlet2 p)) = mass p" "dt (state_of (verlet2 p)) = dt p"
  "halfdt (state_of (verlet2 p)) = halfdt p"
  by (simp_all add: verlet2_def state_of_then_call accel_frame move_frame get_force_frame)

text \<open>
  C10.  Whether it returns or raises, each of \<^verbatim>\<open>accel\<close>, \<^verbatim>\<open>move\<close>, \<^verbatim>\<open>get_force\<close>
  and \<^verbatim>\<open>verlet2\<close> leaves \<^verbatim>\<open>mass\<close>, \<^verbatim>\<open>dt\<close> and \<^verbatim>\<open>halfdt\<close> as they were, and the
  constructor sets \<^verbatim>\<open>halfdt\<close> to \<^verbatim>\<open>dt / 2\<close>.  Moreover \<^verbatim>\<open>get_force\<close> leaves position
  and velocity, \<^verbatim>\<open>accel\<close> leaves position and force, and \<^verbatim>\<open>move\<close> leaves velocity
  and force unchanged.
\<close>

theorem particle2_frame:
  "halfdt (particle2_init m0 x0 y0 vx0 vy0 fx0 fy0 dt0)
     = num_quot (dt (particle2_init m0 x0 y0 vx0 vy0 fx0 fy0 dt0)) (py 2)
   \<and> (mass (state_of (accel p)) = mass p \<and> dt (state_of (accel p)) = dt p
        \<and> halfdt (state_of (accel p)) = halfdt p)
   \<and> (mass (state_of (move p)) = mass p \<and> dt (state_of (move p)) = dt p
        \<and> halfdt (state_of (move p)) = halfdt p)
   \<and> (mass (state_of (get_force p)) = mass p \<and> dt (state_of (get_force p)) = dt p
        \<and> halfdt (state_of (get_force p)) = halfdt p)
   \<and> (mass (state_of (verlet2 p)) = mass p \<and> dt (state_of (verlet2 p)) = dt p
        \<and> halfdt (state_of (verlet2 p)) = halfdt p)
   \<and> (x (state_of (get_force p)) = x p \<and> y (state_of (get_force p)) = y p
        \<and> vx (state_of (get_force p)) = vx p \<and> vy (state_of (get_force p)) = vy p)
   \<and> (x (state_of (accel p)) = x p \<and> y (state_of (accel p)) = y p
        \<and> fx (state_of (accel p)) = fx p \<and> fy (state_of (accel p)) = fy p)
   \<and> (vx (state_of (move p)) = vx p \<and> vy (state_of (move p)) = vy p
        \<and> fx (state_of (move p)) = fx p \<and> fy (state_of (move p)) = fy p)"
  by (simp add: particle2_init_def accel_frame move_frame get_force_frame verlet2_frame)

section \<open>One velocity-Verlet step\<close>






section \<open>Steps that end on the origin\<close>



section \<open>Independence of bodies\<close>












section \<open>The driver: initial conditions and construction of the bodies\<close>

lemma bind_err_Inr_iff: "bind_err m f = Inr v \<longleftrightarrow> (\<exists>u. m = Inr u \<and> f u = Inr v)"
  by (cases m) simp_all



lemma for_each_fails:
  assumes "a \<in> set as" and "\<And>t. \<exists>e. f a t = Inl e"
  shows "\<exists>e. for_each as f s = Inl e"
  using assms(1)
proof (induction as arbitrary: s)
  case Nil
  then show ?case by simp
next
  case (Cons b bs)
  show ?case
  proof (cases "f b s")
    case (Inl e)
    then show ?thesis by simp
  next
    case (Inr t)
    show ?thesis
    proof (cases "a = b")
      case True
      with assms(2) [of s] Inr show ?thesis by simp
    next
      case False
      with Cons.prems have "a \<in> set bs" by simp
      from Cons.IH [OF this, of t] Inr show ?thesis by simp
    qed
  qed
qed

lemma upt_two: "[0..<2] = [0, Suc 0]"
  by (simp add: upt_rec)

lemma nsteps_of_eq:
  "dt_glob c \<noteq> 0 \<Longrightarrow>
   nsteps_of c = Inr (if 0 \<le> tmax c / dt_glob c then \<lfloor>tmax c / dt_glob c\<rfloor>
                      else \<lceil>tmax c / dt_glob c\<rceil>)"
  by (simp add: nsteps_of_def num_div_def num_quot_def py_int_def)


lemma nsteps_one_row_run: "nsteps_of one_row_run = Inr 1"
  by (subst nsteps_of_eq) (simp_all add: one_row_run_def)

lemma nsteps_no_row_run: "nsteps_of no_row_run = Inr 0"
  by (subst nsteps_of_eq) (simp_all add: no_row_run_def)

lemma circular_speed_returns: "0 < r \<Longrightarrow> circular_speed r = Inr (py (sqrt (GM / r)))"
  using GM_pos
  by (simp add: circular_speed_def num_div_def num_quot_def math_sqrt_def not_less)

lemma circular_speed_Inr: "circular_speed r = Inr v \<Longrightarrow> 0 < r"
proof -
  assume a: "circular_speed r = Inr v"
  show "0 < r"
  proof (rule ccontr)
    assume "\<not> 0 < r"
    then have "r = 0 \<or> r < 0" by auto
    then show False
    proof
      assume "r = 0"
      with a show False by (simp add: circular_speed_def num_div_def)
    next
      assume "r < 0"
      then have "GM / r < 0"
        using GM_pos by (simp add: divide_pos_neg)
      with a \<open>r < 0\<close> show False
        by (simp add: circular_speed_def num_div_def num_quot_def math_sqrt_def)
    qed
  qed
qed

lemma initial_conditions_returns:
  assumes "NPLANETS c = 2" "nsteps_of c = Inr k" "1 \<le> k" "0 < r1 c" "0 < r2 c"
  shows "initial_conditions c = Inr
     \<lparr> nsteps = k, x_arr = first_row (nat k) (r1 c) (r2 c),
       y_arr = first_row (nat k) 0 0,
       vx_arr = first_row (nat k) 0 0,
       vy_arr = first_row (nat k) (sqrt (GM / r1 c)) (sqrt (GM / r2 c)),
       energy = first_row (nat k)
          (0.5 * (sqrt (GM / r1 c) * sqrt (GM / r1 c)) - GM / r1 c)
          (0.5 * (sqrt (GM / r2 c) * sqrt (GM / r2 c)) - GM / r2 c),
       planets = [], globs = \<lparr> g_fx = None, g_fy = None \<rparr> \<rparr>"
proof -
  have z: "np_zeros k 2 = Inr (replicate (nat k) [Fin 0, Fin 0])"
    using assms(3) by (simp add: np_zeros_def numeral_2_eq_2)
  have kpos: "0 < nat k"
    using assms(3) by simp
  have s0: "setitem (replicate (nat k) [Fin 0, Fin 0]) 0 0 (j, Fin v)
      = Inr (first_row (nat k) v 0)" for j v
    using kpos by (simp add: setitem_def first_row_def)
  have s1: "setitem (first_row (nat k) v 0) 0 (Suc 0) (j, Fin w)
      = Inr (first_row (nat k) v w)" for j v w
    using kpos by (simp add: setitem_def first_row_def)
  have d: "num_div (py GM) (py (r1 c)) = Inr (py (GM / r1 c))"
    "num_div (py GM) (py (r2 c)) = Inr (py (GM / r2 c))"
    using assms(4,5) by (simp_all add: num_div_def num_quot_def)
  have e: "num_sub (num_mul (py (1 / 2)) (num_mul (py v) (py v))) (py u)
      = py (1 / 2 * (v * v) - u)" for u v
    by (simp add: num_sub_def num_mul_def num_add_def num_neg_def)
  show ?thesis
    unfolding initial_conditions_def
    by (simp add: assms(1,2) circular_speed_returns [OF assms(4)]
        circular_speed_returns [OF assms(5)] z s0 s1 d e)
qed

lemma create_planet_is_get_force:
  assumes "list_get [py (m1 c), py (m2 c)] i = Inr mi"
    and "getitem (x_arr st) 0 i = Inr x0" and "getitem (y_arr st) 0 i = Inr y0"
    and "getitem (vx_arr st) 0 i = Inr vx0" and "getitem (vy_arr st) 0 i = Inr vy0"
    and "i < length (planets st)"
  shows "create_planet c i st =
    (case get_force (particle2_init mi x0 y0 vx0 vy0 (py 0) (py 0) (py (dt_glob c))) of
       Returns q \<Rightarrow> Inr (st\<lparr>planets := (planets st)[i := Body q],
                              globs := \<lparr> g_fx = Some (fx q), g_fy = Some (fy q) \<rparr>\<rparr>)
     | Raises e q \<Rightarrow> Inl e)"
  using assms
  by (simp add: create_planet_def get_force_def Let_def particle2_init_def
      split: sum.splits)

lemma initial_conditions_Inr:
  assumes "initial_conditions c = Inr st"
  shows "0 < r1 c \<and> 0 < r2 c \<and> (\<exists>k. nsteps_of c = Inr k \<and> 1 \<le> k) \<and> 2 \<le> NPLANETS c"
proof -
  from assms obtain v1 v2 k xa xb where
    a: "circular_speed (r1 c) = Inr v1" "circular_speed (r2 c) = Inr v2"
      "nsteps_of c = Inr k" "np_zeros k (NPLANETS c) = Inr xa"
      "setitem xa 0 0 (py (r1 c)) = Inr xb"
    and b: "\<exists>xc. setitem xb 0 1 (py (r2 c)) = Inr xc"
    unfolding initial_conditions_def bind_err_Inr_iff by blast
  from a(4) have xa: "xa = replicate (nat k) (replicate (nat (NPLANETS c)) (Fin 0))"
    and "0 \<le> k"
    by (auto simp: np_zeros_def split: if_splits)
  from a(5) have "0 < nat k"
    by (auto simp: setitem_def xa split: if_splits)
  then have k: "1 \<le> k"
    by simp
  from a(5) \<open>0 < nat k\<close>
  have xb: "xb = xa[0 := (replicate (nat (NPLANETS c)) (Fin 0))[0 := Fin (r1 c)]]"
    by (auto simp: setitem_def xa split: if_splits)
  from b \<open>0 < nat k\<close> have "1 < nat (NPLANETS c)"
    by (auto simp: setitem_def xa xb split: if_splits)
  then have "2 \<le> NPLANETS c"
    by simp
  with a(1,2,3) k show ?thesis
    by (auto dest: circular_speed_Inr)
qed

lemma built_body_returns:
  assumes "0 < r"
  shows "get_force (particle2_init (py m) (np r) (np 0) (np 0) (np (sqrt (GM / r)))
            (py 0) (py 0) (py d)) = Returns (built_body m r d)"
    and "built_body m r d =
      \<lparr> mass = py m, x = np r, y = np 0, vx = np 0, vy = np (sqrt (GM / r)),
        dt = py d, halfdt = py (d / 2),
        fx = np (- GM * m * r / sqrt (r * r) ^ 3), fy = np 0 \<rparr>"
proof -
  define p where
    "p = particle2_init (py m) (np r) (np 0) (np 0) (np (sqrt (GM / r))) (py 0) (py 0) (py d)"
  have "is_fin (mass p)" "is_fin (x p)" "is_fin (y p)" "rv (x p) \<noteq> 0 \<or> rv (y p) \<noteq> 0"
    using assms by (simp_all add: p_def particle2_init_def is_fin_Fin)
  from get_force_returns_fin [OF this]
  have g: "get_force p =
     Returns \<lparr> mass = py m, x = np r, y = np 0, vx = np 0, vy = np (sqrt (GM / r)),
        dt = py d, halfdt = py (d / 2),
        fx = np (- GM * m * r / sqrt (r * r) ^ 3), fy = np 0 \<rparr>"
    by (simp add: p_def particle2_init_def is_fin_Fin num_quot_def)
  then show "built_body m r d =
      \<lparr> mass = py m, x = np r, y = np 0, vx = np 0, vy = np (sqrt (GM / r)),
        dt = py d, halfdt = py (d / 2),
        fx = np (- GM * m * r / sqrt (r * r) ^ 3), fy = np 0 \<rparr>"
    by (simp add: built_body_def p_def)
  with g show "get_force (particle2_init (py m) (np r) (np 0) (np 0) (np (sqrt (GM / r)))
            (py 0) (py 0) (py d)) = Returns (built_body m r d)"
    by (simp add: p_def)
qed

lemma prepare_returns:
  assumes "NPLANETS c = 2" "nsteps_of c = Inr k" "1 \<le> k" "0 < r1 c" "0 < r2 c"
  shows "prepare c = Inr
     \<lparr> nsteps = k, x_arr = first_row (nat k) (r1 c) (r2 c),
       y_arr = first_row (nat k) 0 0,
       vx_arr = first_row (nat k) 0 0,
       vy_arr = first_row (nat k) (sqrt (GM / r1 c)) (sqrt (GM / r2 c)),
       energy = first_row (nat k)
          (0.5 * (sqrt (GM / r1 c) * sqrt (GM / r1 c)) - GM / r1 c)
          (0.5 * (sqrt (GM / r2 c) * sqrt (GM / r2 c)) - GM / r2 c),
       planets = [Body (built_body (m1 c) (r1 c) (dt_glob c)),
                  Body (built_body (m2 c) (r2 c) (dt_glob c))],
       globs = \<lparr> g_fx = Some (fx (built_body (m2 c) (r2 c) (dt_glob c))),
                 g_fy = Some (fy (built_body (m2 c) (r2 c) (dt_glob c))) \<rparr> \<rparr>"
proof -
  have kpos: "0 < nat k"
    using assms(3) by simp
  define q0 where "q0 = built_body (m1 c) (r1 c) (dt_glob c)"
  define q1 where "q1 = built_body (m2 c) (r2 c) (dt_glob c)"
  note g0 = built_body_returns(1) [OF assms(4), of "m1 c" "dt_glob c", folded q0_def]
  note g1 = built_body_returns(1) [OF assms(5), of "m2 c" "dt_glob c", folded q1_def]
  define s0 where "s0 =
     \<lparr> nsteps = k, x_arr = first_row (nat k) (r1 c) (r2 c),
       y_arr = first_row (nat k) 0 0,
       vx_arr = first_row (nat k) 0 0,
       vy_arr = first_row (nat k) (sqrt (GM / r1 c)) (sqrt (GM / r2 c)),
       energy = first_row (nat k)
          (0.5 * (sqrt (GM / r1 c) * sqrt (GM / r1 c)) - GM / r1 c)
          (0.5 * (sqrt (GM / r2 c) * sqrt (GM / r2 c)) - GM / r2 c),
       planets = [], globs = \<lparr> g_fx = None, g_fy = None \<rparr> \<rparr>"
  have i: "initial_conditions c = Inr s0"
    unfolding s0_def by (rule initial_conditions_returns [OF assms])
  have a: "for_each [0, Suc 0] append_placeholder s0
      = Inr (s0\<lparr>planets := [Placeholder, Placeholder]\<rparr>)"
    by (simp add: append_placeholder_def s0_def)
  have c0: "create_planet c 0 (s0\<lparr>planets := [Placeholder, Placeholder]\<rparr>)
      = Inr (s0\<lparr>planets := [Body q0, Placeholder],
                 globs := \<lparr> g_fx = Some (fx q0), g_fy = Some (fy q0) \<rparr>\<rparr>)"
    using kpos
    by (subst create_planet_is_get_force [where mi = "py (m1 c)" and ?x0.0 = "np (r1 c)"
          and ?y0.0 = "np 0" and ?vx0.0 = "np 0" and ?vy0.0 = "np (sqrt (GM / r1 c))"])
      (simp_all add: list_get_def getitem_def s0_def first_row_def g0)
  have c1: "create_planet c (Suc 0)
        (s0\<lparr>planets := [Body q0, Placeholder],
            globs := \<lparr> g_fx = Some (fx q0), g_fy = Some (fy q0) \<rparr>\<rparr>)
      = Inr (s0\<lparr>planets := [Body q0, Body q1],
                 globs := \<lparr> g_fx = Some (fx q1), g_fy = Some (fy q1) \<rparr>\<rparr>)"
    using kpos
    by (subst create_planet_is_get_force [where mi = "py (m2 c)" and ?x0.0 = "np (r2 c)"
          and ?y0.0 = "np 0" and ?vx0.0 = "np 0" and ?vy0.0 = "np (sqrt (GM / r2 c))"])
      (simp_all add: list_get_def getitem_def s0_def first_row_def g1)
  have "prepare c = bind_err (for_each [0, Suc 0] append_placeholder s0)
      (for_each [0, Suc 0] (create_planet c))"
    by (simp add: prepare_def i assms(1) upt_two del: for_each.simps)
  also have "\<dots> = for_each [0, Suc 0] (create_planet c)
      (s0\<lparr>planets := [Placeholder, Placeholder]\<rparr>)"
    by (simp only: a bind_err.simps)
  also have "\<dots> = Inr (s0\<lparr>planets := [Body q0, Body q1],
                 globs := \<lparr> g_fx = Some (fx q1), g_fy = Some (fy q1) \<rparr>\<rparr>)"
    by (simp add: c0 c1)
  finally show ?thesis
    by (simp add: s0_def q0_def q1_def)
qed

lemma create_planet_2_fails: "\<exists>e. create_planet c 2 t = Inl e"
  by (simp add: create_planet_def list_get_def)

lemma prepare_Inr:
  assumes "prepare c = Inr st"
  shows "NPLANETS c = 2 \<and> 0 < r1 c \<and> 0 < r2 c \<and> (\<exists>k. nsteps_of c = Inr k \<and> 1 \<le> k)"
proof -
  from assms obtain s0 s1 where i: "initial_conditions c = Inr s0"
    and l: "for_each [0..<nat (NPLANETS c)] (create_planet c) s1 = Inr st"
    unfolding prepare_def bind_err_Inr_iff by blast
  from initial_conditions_Inr [OF i] have r: "0 < r1 c \<and> 0 < r2 c"
    "\<exists>k. nsteps_of c = Inr k \<and> 1 \<le> k" and n: "2 \<le> NPLANETS c"
    by simp_all
  have "\<not> 3 \<le> NPLANETS c"
  proof
    assume "3 \<le> NPLANETS c"
    then have "2 \<in> set [0..<nat (NPLANETS c)]"
      by simp
    from for_each_fails [OF this, of "create_planet c" s1] create_planet_2_fails l
    show False
      by auto
  qed
  with n r show ?thesis
    by simp
qed


lemma prepare_nsteps:
  assumes "prepare c = Inr st"
  shows "nsteps_of c = Inr (nsteps st)"
proof -
  from prepare_Inr [OF assms] obtain k where
    h: "NPLANETS c = 2" "nsteps_of c = Inr k" "1 \<le> k" "0 < r1 c" "0 < r2 c"
    by blast
  from prepare_returns [OF h] assms have "nsteps st = k"
    by auto
  with h(2) show ?thesis
    by simp
qed


section \<open>The stepping loop\<close>














section \<open>Bodies built from array entries\<close>





lemma built_body_facts:
  assumes "0 < r"
  shows "array_body (built_body m r d)" "finite_body (built_body m r d)"
    "force_fresh (built_body m r d)" "constructed (built_body m r d)"
    "sample (built_body m r d) = (Fin r, Fin 0, Fin 0, Fin (sqrt (GM / r)))"
  using assms
  by (simp_all add: built_body_returns(2) [OF assms] array_body_def finite_body_def
      force_fresh_def constructed_def sample_def central_force_def is_fin_Fin num_quot_def
      power2_eq_square)

section \<open>Freshness of the stored force\<close>




section \<open>The recorded trajectories\<close>



lemma driver_Inr:
  assumes "driver c = Inr st"
  obtains k st0 where "nsteps_of c = Inr k" "1 \<le> k" "prepare c = Inr st0"
    "for_each [1..<nat k] (step_all c) st0 = Inr st"
    "NPLANETS c = 2" "0 < r1 c" "0 < r2 c"
proof -
  from assms obtain st0 where b: "prepare c = Inr st0"
    "for_each [1..<nat (nsteps st0)] (step_all c) st0 = Inr st"
    unfolding driver_def bind_err_Inr_iff by blast
  from prepare_nsteps [OF b(1)] b obtain k where a: "nsteps_of c = Inr k" "prepare c = Inr st0"
    "for_each [1..<nat k] (step_all c) st0 = Inr st"
    by blast
  from prepare_Inr [OF a(2)] a(1) have "NPLANETS c = 2" "0 < r1 c" "0 < r2 c" "1 \<le> k"
    by auto
  with a that show thesis
    by blast
qed










section \<open>Runs without a step\<close>

text \<open>
  C6, as the code has it.  The arrays have \<^verbatim>\<open>nsteps = int(tmax/dt)\<close> rows and the
  stepping loop runs over \<^verbatim>\<open>range(1,nsteps)\<close>, so the run that makes no step is the
  one with \<^verbatim>\<open>nsteps = 1\<close>.  With the script's two bodies at positive radii it
  returns the state the construction of the bodies left: no \<^verbatim>\<open>verlet2\<close> call is
  made, and each body's trajectory has length 1 and holds exactly its initial
  condition.  When \<^verbatim>\<open>nsteps\<close> is 0, or when \<^verbatim>\<open>NPLANETS\<close> is 0, the driver raises
  and returns no trajectory.
\<close>

theorem single_row_run:
  "(nsteps_of c = Inr 1 \<and> NPLANETS c = 2 \<and> 0 < r1 c \<and> 0 < r2 c \<longrightarrow>
      (\<exists>st. driver c = Inr st \<and> prepare c = Inr st \<and>
         x_arr st = [[Fin (r1 c), Fin (r2 c)]] \<and> y_arr st = [[Fin 0, Fin 0]] \<and>
         vx_arr st = [[Fin 0, Fin 0]] \<and>
         vy_arr st = [[Fin (sqrt (GM / r1 c)), Fin (sqrt (GM / r2 c))]] \<and>
         (\<exists>p0 p1. planets st = [Body p0, Body p1] \<and>
            sample p0 = (Fin (r1 c), Fin 0, Fin 0, Fin (sqrt (GM / r1 c))) \<and>
            sample p1 = (Fin (r2 c), Fin 0, Fin 0, Fin (sqrt (GM / r2 c))))))
   \<and> (nsteps_of c = Inr 0 \<or> NPLANETS c = 0 \<longrightarrow> (\<exists>e. driver c = Inl e))"
proof (rule conjI; rule impI)
  assume "nsteps_of c = Inr 1 \<and> NPLANETS c = 2 \<and> 0 < r1 c \<and> 0 < r2 c"
  then have h: "NPLANETS c = 2" "nsteps_of c = Inr 1" "(1::int) \<le> 1" "0 < r1 c" "0 < r2 c"
    by simp_all
  define q0 where "q0 = built_body (m1 c) (r1 c) (dt_glob c)"
  define q1 where "q1 = built_body (m2 c) (r2 c) (dt_glob c)"
  from prepare_returns [OF h] obtain st where
    pre: "prepare c = Inr st" and
    st: "x_arr st = [[Fin (r1 c), Fin (r2 c)]]" "y_arr st = [[Fin 0, Fin 0]]"
      "vx_arr st = [[Fin 0, Fin 0]]"
      "vy_arr st = [[Fin (sqrt (GM / r1 c)), Fin (sqrt (GM / r2 c))]]"
      "planets st = [Body q0, Body q1]"
    by (simp add: q0_def q1_def first_row_def)
  from prepare_nsteps [OF pre] h(2) have "nsteps st = 1"
    by simp
  then have "driver c = Inr st"
    by (simp add: driver_def pre)
  moreover have "sample q0 = (Fin (r1 c), Fin 0, Fin 0, Fin (sqrt (GM / r1 c)))"
    "sample q1 = (Fin (r2 c), Fin 0, Fin 0, Fin (sqrt (GM / r2 c)))"
    unfolding q0_def q1_def
    by (rule built_body_facts(5) [OF h(4)], rule built_body_facts(5) [OF h(5)])
  ultimately show "\<exists>st. driver c = Inr st \<and> prepare c = Inr st \<and>
         x_arr st = [[Fin (r1 c), Fin (r2 c)]] \<and> y_arr st = [[Fin 0, Fin 0]] \<and>
         vx_arr st = [[Fin 0, Fin 0]] \<and>
         vy_arr st = [[Fin (sqrt (GM / r1 c)), Fin (sqrt (GM / r2 c))]] \<and>
         (\<exists>p0 p1. planets st = [Body p0, Body p1] \<and>
            sample p0 = (Fin (r1 c), Fin 0, Fin 0, Fin (sqrt (GM / r1 c))) \<and>
            sample p1 = (Fin (r2 c), Fin 0, Fin 0, Fin (sqrt (GM / r2 c))))"
    using pre st by blast
next
  assume a: "nsteps_of c = Inr 0 \<or> NPLANETS c = 0"
  show "\<exists>e. driver c = Inl e"
  proof (cases "driver c")
    case (Inl e)
    then show ?thesis by simp
  next
    case (Inr st)
    then obtain k where "nsteps_of c = Inr k" "1 \<le> k" "NPLANETS c = 2"
      by (rule driver_Inr)
    with a show ?thesis
      by auto
  qed
qed

theorem single_row_run_witness:
  "nsteps_of one_row_run = Inr 1 \<and> NPLANETS one_row_run = 2 \<and>
   0 < r1 one_row_run \<and> 0 < r2 one_row_run \<and>
   (\<exists>st. driver one_row_run = Inr st \<and> x_arr st = [[Fin 1, Fin (4 / 3)]] \<and>
      y_arr st = [[Fin 0, Fin 0]] \<and> vx_arr st = [[Fin 0, Fin 0]] \<and>
      vy_arr st = [[Fin (sqrt GM), Fin (sqrt (GM / (4 / 3)))]]) \<and>
   nsteps_of no_row_run = Inr 0 \<and> (\<exists>e. driver no_row_run = Inl e) \<and>
   NPLANETS no_body_run = 0 \<and> (\<exists>e. driver no_body_run = Inl e)"
proof -
  have h: "nsteps_of one_row_run = Inr 1 \<and> NPLANETS one_row_run = 2 \<and>
      0 < r1 one_row_run \<and> 0 < r2 one_row_run"
    by (simp add: nsteps_one_row_run) (simp add: one_row_run_def)
  have z: "nsteps_of no_row_run = Inr 0" "NPLANETS no_body_run = 0"
    by (simp_all add: nsteps_no_row_run) (simp add: no_body_run_def)
  from single_row_run [of one_row_run] h
  have "\<exists>st. driver one_row_run = Inr st \<and> x_arr st = [[Fin 1, Fin (4 / 3)]] \<and>
      y_arr st = [[Fin 0, Fin 0]] \<and> vx_arr st = [[Fin 0, Fin 0]] \<and>
      vy_arr st = [[Fin (sqrt GM), Fin (sqrt (GM / (4 / 3)))]]"
    by (auto simp: one_row_run_def)
  moreover from single_row_run [of no_row_run] z(1)
  have "\<exists>e. driver no_row_run = Inl e"
    by blast
  moreover from single_row_run [of no_body_run] z(2)
  have "\<exists>e. driver no_body_run = Inl e"
    by blast
  ultimately show ?thesis
    using h z by blast
qed

text \<open>
  C6, as the claim has it, asks a run with \<^verbatim>\<open>int(tmax/dt) = 0\<close> for trajectories of
  length 1, and a run without bodies for empty trajectories.  Both raise
  \<^verbatim>\<open>IndexError\<close> at \<^verbatim>\<open>x[0,0] = r1\<close>: the array has no row in the first case and no
  column in the second.
\<close>

theorem zero_rows_or_bodies_raise:
  "driver no_row_run = Inl IndexError \<and> driver no_body_run = Inl IndexError"
proof
  have f: "NPLANETS no_row_run = 2" "r1 no_row_run = 1" "r2 no_row_run = 4 / 3"
    by (simp_all add: no_row_run_def)
  have "initial_conditions no_row_run = Inl IndexError"
    using GM_not_neg
    by (simp add: initial_conditions_def nsteps_no_row_run f circular_speed_returns
        np_zeros_def setitem_def)
  then show "driver no_row_run = Inl IndexError"
    by (simp add: driver_def prepare_def)
next
  have n: "nsteps_of no_body_run = Inr 2"
    by (subst nsteps_of_eq) (simp_all add: no_body_run_def)
  have f: "NPLANETS no_body_run = 0" "r1 no_body_run = 1" "r2 no_body_run = 4 / 3"
    by (simp_all add: no_body_run_def)
  have "initial_conditions no_body_run = Inl IndexError"
    using GM_not_neg
    by (simp add: initial_conditions_def n f circular_speed_returns
        np_zeros_def setitem_def)
  then show "driver no_body_run = Inl IndexError"
    by (simp add: driver_def prepare_def)
qed


section \<open>The method \<^verbatim>\<open>verlet\<close>\<close>

lemma for_each_preserves:
  assumes "\<And>a s s'. f a s = Inr s' \<Longrightarrow> g s' = g s"
  shows "for_each as f s = Inr s' \<Longrightarrow> g s' = g s"
proof (induction as arbitrary: s)
  case Nil
  then show ?case by simp
next
  case (Cons a as)
  from Cons.prems obtain s1 where "f a s = Inr s1" "for_each as f s1 = Inr s'"
    by (auto simp: bind_err_Inr_iff)
  with Cons.IH [of s1] assms [of a s s1] show ?case
    by simp
qed

lemma step_planet_globs:
  assumes "step_planet i n st = Inr st'"
  shows "globs st' = globs st"
proof -
  from assms obtain sl where
    b: "(case sl of
           Placeholder \<Rightarrow> Inl AttributeError
         | Body p \<Rightarrow>
             (case verlet2 p of
                Raises e p' \<Rightarrow> Inl e
              | Returns p' \<Rightarrow>
                  bind_err (setitem (x_arr st) i n (x p')) (\<lambda>xa.
                  bind_err (setitem (y_arr st) i n (y p')) (\<lambda>ya.
                  bind_err (setitem (vx_arr st) i n (vx p')) (\<lambda>vxa.
                  bind_err (setitem (vy_arr st) i n (vy p')) (\<lambda>vya.
                    Inr (st\<lparr>planets := (planets st)[n := Body p'],
                            x_arr := xa, y_arr := ya, vx_arr := vxa, vy_arr := vya\<rparr>)
                  )))))) = Inr st'"
    unfolding step_planet_def bind_err_Inr_iff by blast
  then obtain p where sl: "sl = Body p"
    by (cases sl) simp_all
  from b sl obtain q where q: "verlet2 p = Returns q"
    by (cases "verlet2 p") simp_all
  from b sl q obtain xa ya vxa vya where
    "st' = st\<lparr>planets := (planets st)[n := Body q],
              x_arr := xa, y_arr := ya, vx_arr := vxa, vy_arr := vya\<rparr>"
    by (auto simp: bind_err_Inr_iff)
  then show ?thesis
    by simp
qed

lemma step_all_globs: "step_all c i st = Inr st' \<Longrightarrow> globs st' = globs st"
  unfolding step_all_def by (rule for_each_preserves [of "step_planet i"]) (rule step_planet_globs)

lemma driver_binds_globals:
  assumes "driver c = Inr st"
  shows "g_fx (globs st) \<noteq> None \<and> g_fy (globs st) \<noteq> None"
proof -
  from assms obtain k st0 where h: "nsteps_of c = Inr k" "1 \<le> k" "prepare c = Inr st0"
    "for_each [1..<nat k] (step_all c) st0 = Inr st" "NPLANETS c = 2" "0 < r1 c" "0 < r2 c"
    by (rule driver_Inr)
  from for_each_preserves [of "step_all c" globs, OF step_all_globs h(4)]
  have "globs st = globs st0" .
  moreover from prepare_returns [OF h(5,1,2,6,7)] h(3)
  have "g_fx (globs st0) \<noteq> None \<and> g_fy (globs st0) \<noteq> None"
    by auto
  ultimately show ?thesis
    by simp
qed

lemma driver_single_row:
  assumes "nsteps_of c = Inr 1" "prepare c = Inr st"
  shows "driver c = Inr st"
proof -
  from prepare_nsteps [OF assms(2)] assms(1) have "nsteps st = 1"
    by simp
  then show ?thesis
    by (simp add: driver_def assms(2))
qed

text \<open>
  C9, as the code has it.  For every body, every argument \<^verbatim>\<open>dt\<close> and every module
  namespace, \<^verbatim>\<open>verlet(dt)\<close> raises at its first line, before it writes any field, and
  the body is as it was: it never returns.  The exception is \<^verbatim>\<open>NameError\<close> when the
  module-level name \<^verbatim>\<open>fx\<close> or \<^verbatim>\<open>fy\<close> is unbound, and \<^verbatim>\<open>TypeError\<close> when both are
  bound, since \<^verbatim>\<open>get_force\<close> is then called with two arguments too many.  Both are
  bound in the namespace that a run of the driver cell leaves.
\<close>

theorem verlet_never_returns:
  "verlet g d p =
     Raises (if g_fx g = None \<or> g_fy g = None then NameError else TypeError) p
   \<and> (\<forall>c st. driver c = Inr st \<longrightarrow> verlet (globs st) d p = Raises TypeError p)"
proof (rule conjI)
  show "verlet g d p =
     Raises (if g_fx g = None \<or> g_fy g = None then NameError else TypeError) p"
    by (simp add: verlet_def load_global_def get_force_2args_def split: option.splits)
  show "\<forall>c st. driver c = Inr st \<longrightarrow> verlet (globs st) d p = Raises TypeError p"
  proof (intro allI impI)
    fix c st assume "driver c = Inr st"
    from driver_binds_globals [OF this]
    show "verlet (globs st) d p = Raises TypeError p"
      by (auto simp: verlet_def load_global_def get_force_2args_def)
  qed
qed

theorem verlet_never_returns_witness:
  "\<exists>st. driver one_row_run = Inr st \<and>
     verlet (globs st) (py 0.001) body_on_axis = Raises TypeError body_on_axis"
proof -
  have c: "NPLANETS one_row_run = 2" "nsteps_of one_row_run = Inr 1" "(1::int) \<le> 1"
    "0 < r1 one_row_run" "0 < r2 one_row_run"
    by (simp_all add: nsteps_one_row_run) (simp_all add: one_row_run_def)
  from prepare_returns [OF c] obtain st where "prepare one_row_run = Inr st"
    by simp
  with c(2) have d: "driver one_row_run = Inr st"
    by (rule driver_single_row)
  with verlet_never_returns [of "globs st" "py 0.001" body_on_axis] show ?thesis
    by blast
qed


text \<open>
  C9, as the claim has it, says the exception is always the one for an undefined name.
  In a namespace where \<^verbatim>\<open>fx\<close> and \<^verbatim>\<open>fy\<close> are bound the exception is
  \<^verbatim>\<open>TypeError\<close>.
\<close>

theorem verlet_type_error:
  "raised (verlet globals_bound (py 1) body_on_axis) = Some TypeError \<and>
   raised (verlet globals_bound (py 1) body_on_axis) \<noteq> Some NameError"
  by (simp add: verlet_def load_global_def get_force_2args_def globals_bound_def)

end
